theory Spec2Isabelle
  imports Main "HOL-Library.Word"
begin

section \<open>Data model\<close>

text \<open>
  The filter engine of \<^verbatim>\<open>src/filter.c\<close> works on calls and messages whose C structures
  are declared in headers that are not part of the sources at hand
  (\<^verbatim>\<open>sip_call.h\<close>, \<^verbatim>\<open>sip_msg.h\<close>, \<^verbatim>\<open>sip_attr.h\<close>, \<^verbatim>\<open>filter.h\<close>).
  The records below hold the fields that \<^verbatim>\<open>filter.c\<close> reads and writes
  (\<^verbatim>\<open>call->msgs\<close>, \<^verbatim>\<open>call->filtered\<close>, the payload of a message) together with the
  fields the specification's data model gives to a message and a call.

  A \<open>string\<close> holds the characters of a C string before its terminating NUL.
\<close>

text \<open>\<^verbatim>\<open>#define MAX_SIP_PAYLOAD 10240\<close> of \<^verbatim>\<open>sip.h\<close>.\<close>

definition MAX_SIP_PAYLOAD :: nat where "MAX_SIP_PAYLOAD = 10240"

text \<open>Modelled from the spec: the attribute id set of section 6 (\<^verbatim>\<open>sip_attr.h\<close> is missing).\<close>

datatype sip_attr_id =
    SIP_ATTR_CALLID | SIP_ATTR_XCALLID | SIP_ATTR_FROM | SIP_ATTR_TO
  | SIP_ATTR_SRC | SIP_ATTR_DST | SIP_ATTR_METHOD | SIP_ATTR_CSEQ
  | SIP_ATTR_DATE | SIP_ATTR_TIME | SIP_ATTR_SIPFROM | SIP_ATTR_SIPTO
  | SIP_ATTR_MSGCNT | SIP_ATTR_RTPCNT | SIP_ATTR_STATE | SIP_ATTR_CONVDUR
  | SIP_ATTR_TOTALDUR | SIP_ATTR_REASON | SIP_ATTR_WARNING | SIP_ATTR_TRANSPORT

text \<open>Modelled from the spec: the message record of section 3 (\<^verbatim>\<open>sip_msg.h\<close> is missing).\<close>

record sip_msg =
  reqresp :: int
  msg_callid :: string
  msg_xcallid :: string
  sip_from :: string
  sip_to :: string
  to_tag :: bool
  payload :: string

text \<open>
  Modelled from the spec: the call record of section 3 (\<^verbatim>\<open>sip_call.h\<close> is missing).
  The cached filter verdict \<open>filtered\<close> is the C \<^verbatim>\<open>int\<close> that \<^verbatim>\<open>filter.c\<close> compares
  with \<open>-1\<close> (unknown), \<open>0\<close> (pass) and \<open>1\<close> (reject).
\<close>

record sip_call =
  index :: int
  callid :: string
  xcallid :: string
  msgs :: "sip_msg list"
  filtered :: int
  locked :: bool

definition call_msg_count :: "sip_call \<Rightarrow> nat" where
  "call_msg_count call = length (msgs call)"

definition msg_get_payload :: "sip_msg \<Rightarrow> string" where
  "msg_get_payload msg = payload msg"

subsection \<open>External collaborators\<close>

text \<open>
  The regular expression library (GLib) and the attribute accessors are outside the
  sources; they are parameters of the model. \<open>g_regex_new\<close> stands for
  \<^verbatim>\<open>g_regex_new(expr, G_REGEX_CASELESS, 0, NULL)\<close>, which yields \<^verbatim>\<open>NULL\<close> (here \<open>None\<close>)
  when the expression does not compile. \<open>call_get_attribute env call id\<close> is the content of
  the zeroed buffer \<^verbatim>\<open>data\<close> after \<^verbatim>\<open>call_get_attribute(call, id, data)\<close>, and
  \<open>call_list_line_text env call\<close> the content after
  \<^verbatim>\<open>call_list_line_text(ui_find_by_type(PANEL_CALL_LIST), call, data)\<close>; how these two
  write into the buffer is not visible in \<^verbatim>\<open>filter.c\<close>.
\<close>

record 'r env =
  g_regex_new :: "string \<Rightarrow> 'r option"
  g_regex_match :: "'r \<Rightarrow> string \<Rightarrow> bool"
  call_get_attribute :: "sip_call \<Rightarrow> sip_attr_id \<Rightarrow> string"
  call_list_line_text :: "sip_call \<Rightarrow> string"

section \<open>The filter table\<close>

text \<open>
  Modelled from the spec: the closed set of field selectors of section 4.5, in the order
  the spec lists them (\<^verbatim>\<open>filter.h\<close>, which declares the enumeration and
  \<^verbatim>\<open>FILTER_COUNT\<close>, is missing).
\<close>

definition FILTER_SIPFROM :: nat where "FILTER_SIPFROM = 0"
definition FILTER_SIPTO :: nat where "FILTER_SIPTO = 1"
definition FILTER_SOURCE :: nat where "FILTER_SOURCE = 2"
definition FILTER_DESTINATION :: nat where "FILTER_DESTINATION = 3"
definition FILTER_METHOD :: nat where "FILTER_METHOD = 4"
definition FILTER_PAYLOAD :: nat where "FILTER_PAYLOAD = 5"
definition FILTER_CALL_LIST :: nat where "FILTER_CALL_LIST = 6"
definition FILTER_COUNT :: nat where "FILTER_COUNT = 7"

lemmas filter_ids =
  FILTER_SIPFROM_def FILTER_SIPTO_def FILTER_SOURCE_def FILTER_DESTINATION_def
  FILTER_METHOD_def FILTER_PAYLOAD_def FILTER_CALL_LIST_def FILTER_COUNT_def

text \<open>
  \<^verbatim>\<open>filter_t\<close>: the expression text and its compiled pattern; a \<^verbatim>\<open>NULL\<close> pointer is
  \<open>None\<close>. A filter is enabled when its expression is set.
\<close>

record 'r filter_t =
  expr :: "string option"
  regex :: "'r option"

definition no_filter :: "'r filter_t" where
  "no_filter = \<lparr>expr = None, regex = None\<rparr>"

text \<open>
  The process-wide state that \<^verbatim>\<open>filter.c\<close> touches: the array
  \<^verbatim>\<open>filters[FILTER_COUNT]\<close> and the call list that \<^verbatim>\<open>sip_calls_iterator()\<close> walks.
\<close>

record 'r filter_state =
  filters :: "'r filter_t list"
  call_list :: "sip_call list"

definition filters_init :: "'r filter_t list" where
  "filters_init = replicate FILTER_COUNT no_filter"

subsection \<open>\<^verbatim>\<open>filter_set\<close>, \<^verbatim>\<open>filter_get\<close>\<close>

text \<open>
  \<^verbatim>\<open>filter_set(type, expr)\<close>. The result is \<open>None\<close> where the C code indexes
  \<^verbatim>\<open>filters[type]\<close> outside the array (undefined behaviour); otherwise the return code and
  the state after the call. With \<^verbatim>\<open>expr == NULL\<close> the local \<^verbatim>\<open>regex\<close> is stored
  uninitialised; the model stores \<open>None\<close>, and no function reads the pattern of a filter
  whose expression is unset.
\<close>

definition filter_set ::
  "'r env \<Rightarrow> int \<Rightarrow> string option \<Rightarrow> 'r filter_state \<Rightarrow> (int \<times> 'r filter_state) option" where
  "filter_set env type e s =
     (let rx = (case e of None \<Rightarrow> None | Some x \<Rightarrow> g_regex_new env x)
      in if e \<noteq> None \<and> rx = None then Some (1, s)
         else if type < 0 \<or> int (length (filters s)) \<le> type then None
         else Some (0, s\<lparr>filters := (filters s)[nat type := \<lparr>expr = e, regex = rx\<rparr>]\<rparr>))"

definition filter_get :: "int \<Rightarrow> 'r filter_state \<Rightarrow> string option option" where
  "filter_get type s =
     (if type < 0 \<or> int (length (filters s)) \<le> type then None
      else Some (expr (filters s ! nat type)))"

subsection \<open>\<^verbatim>\<open>filter_check_expr\<close>, \<^verbatim>\<open>filter_check_call\<close>\<close>

text \<open>
  \<^verbatim>\<open>filter_check_expr\<close> returns 0 on a match and 1 otherwise; \<^verbatim>\<open>g_regex_match\<close>
  answers \<^verbatim>\<open>FALSE\<close> for a \<^verbatim>\<open>NULL\<close> pattern.
\<close>

definition filter_check_expr :: "'r env \<Rightarrow> 'r filter_t \<Rightarrow> string \<Rightarrow> int" where
  "filter_check_expr env f d =
     (case regex f of
        None \<Rightarrow> 1
      | Some r \<Rightarrow> (if g_regex_match env r d then 0 else 1))"

text \<open>
  The \<^verbatim>\<open>switch\<close> that fills \<^verbatim>\<open>data\<close>; \<open>None\<close> is its \<^verbatim>\<open>default\<close> branch
  (unknown filter id). For \<^verbatim>\<open>FILTER_PAYLOAD\<close> the buffer stays zeroed.
\<close>

definition filter_data :: "'r env \<Rightarrow> nat \<Rightarrow> sip_call \<Rightarrow> string option" where
  "filter_data env i call =
     (if i = FILTER_SIPFROM then Some (call_get_attribute env call SIP_ATTR_SIPFROM)
      else if i = FILTER_SIPTO then Some (call_get_attribute env call SIP_ATTR_SIPTO)
      else if i = FILTER_SOURCE then Some (call_get_attribute env call SIP_ATTR_SRC)
      else if i = FILTER_DESTINATION then Some (call_get_attribute env call SIP_ATTR_DST)
      else if i = FILTER_METHOD then Some (call_get_attribute env call SIP_ATTR_METHOD)
      else if i = FILTER_PAYLOAD then Some []
      else if i = FILTER_CALL_LIST then Some (call_list_line_text env call)
      else None)"

text \<open>
  \<^verbatim>\<open>strcpy(data, msg_get_payload(msg))\<close> into \<^verbatim>\<open>char data[MAX_SIP_PAYLOAD]\<close>: the
  copy writes the characters and the terminating NUL. It stays inside the buffer when the
  text has fewer than \<^verbatim>\<open>MAX_SIP_PAYLOAD\<close> characters; otherwise it overruns the buffer
  (undefined behaviour), which is the result \<open>None\<close>.
\<close>

definition strcpy_data :: "string \<Rightarrow> string option" where
  "strcpy_data src = (if length src < MAX_SIP_PAYLOAD then Some src else None)"

text \<open>
  The inner loop over the messages of the call: each payload is copied into \<^verbatim>\<open>data\<close>,
  and the first payload that matches sets the verdict to 0 and leaves the loop. \<open>None\<close> is
  a copy that overran the buffer.
\<close>

fun payload_loop ::
  "'r env \<Rightarrow> 'r filter_t \<Rightarrow> sip_msg list \<Rightarrow> sip_call \<Rightarrow> sip_call option" where
  "payload_loop env f [] call = Some call"
| "payload_loop env f (msg # rest) call =
     (case strcpy_data (msg_get_payload msg) of
        None \<Rightarrow> None
      | Some d \<Rightarrow>
          (if filter_check_expr env f d = 0
           then Some (call\<lparr>filtered := 0\<rparr>)
           else payload_loop env f rest call))"

text \<open>
  The loop \<^verbatim>\<open>for (i=0; i < FILTER_COUNT; i++)\<close> from index \<open>i\<close> on, with the final
  \<^verbatim>\<open>return (call->filtered == 0)\<close>. The result is the returned boolean and the call as
  the function leaves it, or \<open>None\<close> when a payload overran \<^verbatim>\<open>data\<close>.
\<close>

function filter_loop ::
  "'r env \<Rightarrow> 'r filter_t list \<Rightarrow> nat \<Rightarrow> sip_call \<Rightarrow> (bool \<times> sip_call) option" where
  "filter_loop env fs i call =
     (if i < FILTER_COUNT then
        (if expr (fs ! i) = None then filter_loop env fs (i + 1) call
         else
           (case filter_data env i call of
              None \<Rightarrow> Some (False, call)
            | Some d \<Rightarrow>
                (if i = FILTER_PAYLOAD then
                   (case payload_loop env (fs ! i) (msgs call) (call\<lparr>filtered := 1\<rparr>) of
                      None \<Rightarrow> None
                    | Some call' \<Rightarrow>
                        (if filtered call' = 1 then Some (filtered call' = 0, call')
                         else filter_loop env fs (i + 1) call'))
                 else if filter_check_expr env (fs ! i) d \<noteq> 0
                      then (let call' = call\<lparr>filtered := 1\<rparr> in Some (filtered call' = 0, call'))
                      else filter_loop env fs (i + 1) call)))
      else Some (filtered call = 0, call))"
  by pat_completeness auto
termination
  by (relation "measure (\<lambda>(env, fs, i, call). FILTER_COUNT - i)") auto

declare filter_loop.simps [simp del]

text \<open>
  \<^verbatim>\<open>filter_check_call\<close>: the message count is tested first, then the cached verdict;
  only the verdict -1 starts the loop.
\<close>

definition filter_check_call ::
  "'r env \<Rightarrow> 'r filter_t list \<Rightarrow> sip_call \<Rightarrow> (bool \<times> sip_call) option" where
  "filter_check_call env fs call =
     (if call_msg_count call = 0 then Some (False, call)
      else if filtered call \<noteq> - 1 then Some (filtered call = 0, call)
      else filter_loop env fs 0 (call\<lparr>filtered := 0\<rparr>))"

subsection \<open>\<^verbatim>\<open>filter_reset_calls\<close>\<close>

definition filter_reset_calls :: "'r filter_state \<Rightarrow> 'r filter_state" where
  "filter_reset_calls s = s\<lparr>call_list := map (\<lambda>call. call\<lparr>filtered := - 1\<rparr>) (call_list s)\<rparr>"

section \<open>What the specification calls a match\<close>



definition pattern_matches :: "'r env \<Rightarrow> 'r filter_t \<Rightarrow> string \<Rightarrow> bool" where
  "pattern_matches env f d = (case regex f of None \<Rightarrow> False | Some r \<Rightarrow> g_regex_match env r d)"



section \<open>The call registry\<close>

text \<open>
  \<^verbatim>\<open>sip.h\<close> declares the storage structures and the registry's functions; their bodies
  (\<^verbatim>\<open>sip.c\<close>) are not part of the sources at hand. The records follow the structures of
  \<^verbatim>\<open>sip.h\<close>; the functions are modelled from the specification.
\<close>

text \<open>\<^verbatim>\<open>struct _SStorageCaptureOpts\<close>; \<^verbatim>\<open>guint limit\<close> is a 32-bit unsigned integer.\<close>

record SStorageCaptureOpts =
  limit :: "32 word"
  rotate :: bool
  rtp :: bool
  outfile :: "string option"

text \<open>\<^verbatim>\<open>struct _SStorageMatchOpts\<close>.\<close>

record 'r SStorageMatchOpts =
  invite :: bool
  complete :: bool
  mexpr :: "string option"
  minvert :: bool
  micase :: bool
  mregex :: "'r option"

text \<open>
  \<^verbatim>\<open>struct sip_call_list\<close>, without the sort options and the parser's compiled patterns.
  \<open>calls_list\<close> is the field \<^verbatim>\<open>list\<close> (the spec's sequence \<open>all\<close>), oldest call first.
  \<open>active\<close> holds the Call-IDs of the active calls, which are references to calls of
  \<open>calls_list\<close>. The hash table \<^verbatim>\<open>callids\<close> (the spec's \<open>by_callid\<close>) is the lookup by
  Call-ID in \<open>calls_list\<close>.
\<close>

record 'r sip_call_list =
  match :: "'r SStorageMatchOpts"
  capture :: SStorageCaptureOpts
  calls_list :: "sip_call list"
  active :: "string list"
  changed :: bool
  last_index :: int

text \<open>\<^verbatim>\<open>enum sip_methods\<close> of \<^verbatim>\<open>sip.h\<close>.\<close>

definition SIP_METHOD_REGISTER :: int where "SIP_METHOD_REGISTER = 1"
definition SIP_METHOD_INVITE :: int where "SIP_METHOD_INVITE = 2"
definition SIP_METHOD_SUBSCRIBE :: int where "SIP_METHOD_SUBSCRIBE = 3"
definition SIP_METHOD_NOTIFY :: int where "SIP_METHOD_NOTIFY = 4"
definition SIP_METHOD_OPTIONS :: int where "SIP_METHOD_OPTIONS = 5"
definition SIP_METHOD_PUBLISH :: int where "SIP_METHOD_PUBLISH = 6"
definition SIP_METHOD_MESSAGE :: int where "SIP_METHOD_MESSAGE = 7"
definition SIP_METHOD_CANCEL :: int where "SIP_METHOD_CANCEL = 8"
definition SIP_METHOD_BYE :: int where "SIP_METHOD_BYE = 9"
definition SIP_METHOD_ACK :: int where "SIP_METHOD_ACK = 10"
definition SIP_METHOD_PRACK :: int where "SIP_METHOD_PRACK = 11"
definition SIP_METHOD_INFO :: int where "SIP_METHOD_INFO = 12"
definition SIP_METHOD_REFER :: int where "SIP_METHOD_REFER = 13"
definition SIP_METHOD_UPDATE :: int where "SIP_METHOD_UPDATE = 14"

lemmas sip_methods =
  SIP_METHOD_REGISTER_def SIP_METHOD_INVITE_def SIP_METHOD_SUBSCRIBE_def
  SIP_METHOD_NOTIFY_def SIP_METHOD_OPTIONS_def SIP_METHOD_PUBLISH_def
  SIP_METHOD_MESSAGE_def SIP_METHOD_CANCEL_def SIP_METHOD_BYE_def SIP_METHOD_ACK_def
  SIP_METHOD_PRACK_def SIP_METHOD_INFO_def SIP_METHOD_REFER_def SIP_METHOD_UPDATE_def

subsection \<open>Lookup, counting, the change flag\<close>

text \<open>
  Modelled from the spec: \<^verbatim>\<open>sip_calls_count\<close> (\<open>stats().total = |all|\<close>) and
  \<^verbatim>\<open>sip_find_by_callid\<close> (section 6; the body in \<^verbatim>\<open>sip.c\<close> is missing).
\<close>

definition sip_calls_count :: "'r sip_call_list \<Rightarrow> nat" where
  "sip_calls_count s = length (calls_list s)"

definition sip_find_by_callid :: "'r sip_call_list \<Rightarrow> string \<Rightarrow> sip_call option" where
  "sip_find_by_callid s cid = find (\<lambda>c. callid c = cid) (calls_list s)"

text \<open>
  Modelled from the spec: \<^verbatim>\<open>sip_calls_has_changed\<close> (section 4.7: it "returns the
  current value of \<open>changed\<close> and clears it"; the body in \<^verbatim>\<open>sip.c\<close> is missing). Reading
  and clearing are one transition of the state.
\<close>

definition sip_calls_has_changed :: "'r sip_call_list \<Rightarrow> bool \<times> 'r sip_call_list" where
  "sip_calls_has_changed s = (changed s, s\<lparr>changed := False\<rparr>)"

subsection \<open>Rotation and clearing\<close>

text \<open>
  Modelled from the spec: \<^verbatim>\<open>sip_calls_rotate\<close> (section 4.4, step 4: "evict the oldest
  non-locked call (remove from all indices, raise \<open>changed\<close>)"; the body in \<^verbatim>\<open>sip.c\<close> is
  missing). When every call is locked there is no call to evict and the state stays as it
  is.
\<close>

fun evict_oldest_unlocked :: "sip_call list \<Rightarrow> sip_call list" where
  "evict_oldest_unlocked [] = []"
| "evict_oldest_unlocked (c # cs) = (if \<not> locked c then cs else c # evict_oldest_unlocked cs)"

definition sip_calls_rotate :: "'r sip_call_list \<Rightarrow> 'r sip_call_list" where
  "sip_calls_rotate s =
     (case find (\<lambda>c. \<not> locked c) (calls_list s) of
        None \<Rightarrow> s
      | Some c \<Rightarrow>
          s\<lparr>calls_list := evict_oldest_unlocked (calls_list s),
            active := removeAll (callid c) (active s),
            changed := True\<rparr>)"

text \<open>
  Modelled from the spec: \<^verbatim>\<open>sip_calls_clear\<close> (section 3, lifecycle: a call is destroyed
  on \<open>clear\<close>, and a removal is a structural mutation that sets \<open>changed\<close>; the body in
  \<^verbatim>\<open>sip.c\<close> is missing). Clearing an empty registry removes nothing.
\<close>

definition sip_calls_clear :: "'r sip_call_list \<Rightarrow> 'r sip_call_list" where
  "sip_calls_clear s =
     s\<lparr>calls_list := [], active := [], changed := (changed s \<or> calls_list s \<noteq> [])\<rparr>"

subsection \<open>Admission of a packet\<close>

text \<open>
  Modelled from the spec: \<^verbatim>\<open>sip_check_match_expression\<close> (section 4.4, step 3: when
  \<open>match.mexpr\<close> is set "the payload must match (or not match, if \<open>minvert\<close>) the compiled
  pattern"; the body in \<^verbatim>\<open>sip.c\<close> is missing).
\<close>

definition sip_check_match_expression :: "'r env \<Rightarrow> 'r sip_call_list \<Rightarrow> string \<Rightarrow> bool" where
  "sip_check_match_expression env s text =
     (case mexpr (match s) of
        None \<Rightarrow> True
      | Some _ \<Rightarrow>
          (case mregex (match s) of
             None \<Rightarrow> minvert (match s)
           | Some r \<Rightarrow> (g_regex_match env r text \<noteq> minvert (match s))))"

text \<open>Appending a message to the call with its Call-ID sets that call's verdict to unknown
  (section 3, invariant 6).\<close>

fun call_add_message :: "sip_msg \<Rightarrow> sip_call list \<Rightarrow> sip_call list" where
  "call_add_message m [] = []"
| "call_add_message m (c # cs) =
     (if callid c = msg_callid m
      then c\<lparr>msgs := msgs c @ [m], filtered := - 1\<rparr> # cs
      else c # call_add_message m cs)"

definition call_create :: "int \<Rightarrow> sip_msg \<Rightarrow> sip_call" where
  "call_create i m =
     \<lparr>index = i, callid = msg_callid m, xcallid = msg_xcallid m, msgs = [m],
      filtered = - 1, locked = False\<rparr>"

text \<open>Modelled from the spec: step 5 of section 4.4. The new call gets the next index, enters
  the sequence of all calls and the active calls, and holds the first message.\<close>

definition registry_add_call ::
  "sip_msg \<Rightarrow> 'r sip_call_list \<Rightarrow> sip_msg option \<times> 'r sip_call_list" where
  "registry_add_call m s =
     (let call = call_create (last_index s) m
      in (Some m,
          s\<lparr>last_index := last_index s + 1,
            calls_list := calls_list s @ [call],
            active := active s @ [callid call],
            changed := True\<rparr>))"

text \<open>
  Modelled from the spec: \<^verbatim>\<open>sip_check_packet\<close> (section 4.4, steps 1 to 5; the body in
  \<^verbatim>\<open>sip.c\<close> is missing). The packet is given as the message record that the header
  parser makes of it. The result is the accepted message (\<open>None\<close> when the packet is
  dropped) and the registry after the call.

  At the limit, step 4 names two actions: with rotation on the oldest non-locked call is
  evicted, with rotation off the new call is dropped. Where rotation is on and no call can
  be evicted (every call is locked, or the limit is 0) the specification names no action;
  the new call is dropped there, the one action that keeps invariant 2 of section 3
  (\<open>|all| \<le> capture.limit\<close>) and the comment of \<^verbatim>\<open>sip.h\<close> on \<^verbatim>\<open>limit\<close>
  ("Max number of calls in the list").
\<close>

definition sip_check_packet ::
  "'r env \<Rightarrow> sip_msg \<Rightarrow> 'r sip_call_list \<Rightarrow> sip_msg option \<times> 'r sip_call_list" where
  "sip_check_packet env m s =
     (if msg_callid m = [] then (None, s)
      else
        (case sip_find_by_callid s (msg_callid m) of
           Some c \<Rightarrow>
             (Some m, s\<lparr>calls_list := call_add_message m (calls_list s), changed := True\<rparr>)
         | None \<Rightarrow>
             if invite (match s) \<and> reqresp m \<noteq> SIP_METHOD_INVITE then (None, s)
             else if complete (match s) \<and> to_tag m then (None, s)
             else if \<not> sip_check_match_expression env s (payload m) then (None, s)
             else if sip_calls_count s = unat (limit (capture s)) then
               (if rotate (capture s) \<and> list_ex (\<lambda>c. \<not> locked c) (calls_list s)
                then registry_add_call m (sip_calls_rotate s)
                else (None, s))
             else registry_add_call m s))"

subsection \<open>Runs of registry operations\<close>

datatype registry_op = Packet sip_msg | Rotate | Clear

fun apply_op :: "'r env \<Rightarrow> registry_op \<Rightarrow> 'r sip_call_list \<Rightarrow> 'r sip_call_list" where
  "apply_op env (Packet m) s = snd (sip_check_packet env m s)"
| "apply_op env Rotate s = sip_calls_rotate s"
| "apply_op env Clear s = sip_calls_clear s"

fun run_ops :: "'r env \<Rightarrow> registry_op list \<Rightarrow> 'r sip_call_list \<Rightarrow> 'r sip_call_list" where
  "run_ops env [] s = s"
| "run_ops env (op # ops) s = run_ops env ops (apply_op env op s)"

text \<open>A structural mutation: the sequence of calls, with their messages, is no longer the
  same. \<open>mutation_occurred\<close> tells whether some operation of a run mutated the registry.\<close>

definition mutates :: "'r env \<Rightarrow> registry_op \<Rightarrow> 'r sip_call_list \<Rightarrow> bool" where
  "mutates env op s = (calls_list (apply_op env op s) \<noteq> calls_list s)"

fun mutation_occurred :: "'r env \<Rightarrow> registry_op list \<Rightarrow> 'r sip_call_list \<Rightarrow> bool" where
  "mutation_occurred env [] s = False"
| "mutation_occurred env (op # ops) s =
     (mutates env op s \<or> mutation_occurred env ops (apply_op env op s))"



section \<open>Method names\<close>

text \<open>
  Modelled from the spec: the table of method names behind \<^verbatim>\<open>sip_method_str\<close> and
  \<^verbatim>\<open>sip_method_from_str\<close> (section 4.2: "SIP methods map to a fixed enumeration
  REGISTER=1, INVITE, SUBSCRIBE, NOTIFY, OPTIONS, PUBLISH, MESSAGE, CANCEL, BYE, ACK,
  PRACK, INFO, REFER, UPDATE"; the table and both functions are in \<^verbatim>\<open>sip.c\<close>, which is
  missing). The numbers are those of \<^verbatim>\<open>enum sip_methods\<close> in \<^verbatim>\<open>sip.h\<close>.
\<close>

definition sip_codes :: "(int \<times> string) list" where
  "sip_codes =
     [(SIP_METHOD_REGISTER, ''REGISTER''), (SIP_METHOD_INVITE, ''INVITE''),
      (SIP_METHOD_SUBSCRIBE, ''SUBSCRIBE''), (SIP_METHOD_NOTIFY, ''NOTIFY''),
      (SIP_METHOD_OPTIONS, ''OPTIONS''), (SIP_METHOD_PUBLISH, ''PUBLISH''),
      (SIP_METHOD_MESSAGE, ''MESSAGE''), (SIP_METHOD_CANCEL, ''CANCEL''),
      (SIP_METHOD_BYE, ''BYE''), (SIP_METHOD_ACK, ''ACK''),
      (SIP_METHOD_PRACK, ''PRACK''), (SIP_METHOD_INFO, ''INFO''),
      (SIP_METHOD_REFER, ''REFER''), (SIP_METHOD_UPDATE, ''UPDATE'')]"

fun code_text :: "(int \<times> string) list \<Rightarrow> int \<Rightarrow> string option" where
  "code_text [] method = None"
| "code_text ((i, text) # rest) method = (if method = i then Some text else code_text rest method)"

fun code_id :: "(int \<times> string) list \<Rightarrow> string \<Rightarrow> int option" where
  "code_id [] method = None"
| "code_id ((i, text) # rest) method = (if method = text then Some i else code_id rest method)"

text \<open>The decimal number at the start of a text, 0 when there is none.\<close>

definition is_digit :: "char \<Rightarrow> bool" where
  "is_digit c = (48 \<le> (of_char c :: nat) \<and> (of_char c :: nat) \<le> 57)"

fun atoi_digits :: "int \<Rightarrow> string \<Rightarrow> int" where
  "atoi_digits acc [] = acc"
| "atoi_digits acc (c # cs) =
     (if is_digit c then atoi_digits (acc * 10 + (of_char c - 48)) cs else acc)"

text \<open>
  Modelled from the spec: \<^verbatim>\<open>sip_method_str\<close> gives the text of a method of the
  enumeration (\<open>None\<close>, a \<^verbatim>\<open>NULL\<close> pointer, for any other number).
\<close>

definition sip_method_str :: "int \<Rightarrow> string option" where
  "sip_method_str method = code_text sip_codes method"

text \<open>
  Modelled from the spec: \<^verbatim>\<open>sip_method_from_str\<close> gives the number of a method name and,
  for a response, its numeric status code (section 4.2: "responses use their numeric
  status code").
\<close>

definition sip_method_from_str :: "string \<Rightarrow> int" where
  "sip_method_from_str method =
     (case code_id sip_codes method of
        Some i \<Rightarrow> i
      | None \<Rightarrow> atoi_digits 0 method)"

section \<open>The payload validator\<close>

text \<open>\<^verbatim>\<open>enum validate_result\<close> of \<^verbatim>\<open>sip.h\<close>.\<close>

definition VALIDATE_NOT_SIP :: int where "VALIDATE_NOT_SIP = - 1"
definition VALIDATE_PARTIAL_SIP :: int where "VALIDATE_PARTIAL_SIP = 0"
definition VALIDATE_COMPLETE_SIP :: int where "VALIDATE_COMPLETE_SIP = 1"
definition VALIDATE_MULTIPLE_SIP :: int where "VALIDATE_MULTIPLE_SIP = 2"

lemmas validate_results =
  VALIDATE_NOT_SIP_def VALIDATE_PARTIAL_SIP_def VALIDATE_COMPLETE_SIP_def
  VALIDATE_MULTIPLE_SIP_def

text \<open>Modelled from the spec: the transport kind of a packet (section 4.1; the packet
  structure is declared in a header that is missing).\<close>

datatype transport_kind = Datagram | Stream

text \<open>
  The compiled patterns \<^verbatim>\<open>reg_valid\<close>, \<^verbatim>\<open>reg_cl\<close> and \<^verbatim>\<open>reg_body\<close> of
  \<^verbatim>\<open>struct sip_call_list\<close>. Their expressions are in \<^verbatim>\<open>sip.c\<close>, which is missing, so
  what they recognise is a parameter: whether the first line is a SIP request or response
  start-line, the number \<open>N\<close> of a \<^verbatim>\<open>Content-Length: N\<close> header, and the offset of the
  first byte after the header terminator.
\<close>

record sip_patterns =
  reg_valid :: "string \<Rightarrow> bool"
  reg_cl :: "string \<Rightarrow> nat option"
  reg_body :: "string \<Rightarrow> nat option"

text \<open>
  Modelled from the spec: \<^verbatim>\<open>sip_validate_packet\<close> (section 4.1; the body in
  \<^verbatim>\<open>sip.c\<close> is missing). A payload whose first line is no start-line is not SIP; a
  datagram with a start-line is complete; on a stream the bytes after the header terminator
  are compared with the declared length.
\<close>

definition sip_validate_packet :: "sip_patterns \<Rightarrow> transport_kind \<Rightarrow> string \<Rightarrow> int" where
  "sip_validate_packet pats transport text =
     (if \<not> reg_valid pats text then VALIDATE_NOT_SIP
      else if transport = Datagram then VALIDATE_COMPLETE_SIP
      else
        (case reg_cl pats text of
           None \<Rightarrow> VALIDATE_PARTIAL_SIP
         | Some n \<Rightarrow>
             (case reg_body pats text of
                None \<Rightarrow> VALIDATE_PARTIAL_SIP
              | Some pos \<Rightarrow>
                  (let body = drop pos text
                   in if length body < n then VALIDATE_PARTIAL_SIP
                      else if n < length body then VALIDATE_MULTIPLE_SIP
                      else VALIDATE_COMPLETE_SIP))))"

section \<open>Test fixtures\<close>

text \<open>
  A small stand-in for the collaborators, used to run the model on concrete calls: patterns
  are literal texts that match wherever they occur, an expression with unbalanced
  parentheses does not compile, and the attributes are read from the first message.
\<close>

fun starts_with :: "string \<Rightarrow> string \<Rightarrow> bool" where
  "starts_with [] d = True"
| "starts_with (p # ps) [] = False"
| "starts_with (p # ps) (c # cs) = (p = c \<and> starts_with ps cs)"

fun contains_text :: "string \<Rightarrow> string \<Rightarrow> bool" where
  "contains_text p [] = (p = [])"
| "contains_text p (c # cs) = (starts_with p (c # cs) \<or> contains_text p cs)"

definition stub_regex_new :: "string \<Rightarrow> string option" where
  "stub_regex_new x =
     (if count_list x (CHR ''('') = count_list x (CHR '')'') then Some x else None)"

definition stub_env :: "string env" where
  "stub_env =
     \<lparr>g_regex_new = stub_regex_new,
      g_regex_match = contains_text,
      call_get_attribute = (\<lambda>call a.
        if a = SIP_ATTR_SIPFROM then (case msgs call of [] \<Rightarrow> [] | m # _ \<Rightarrow> sip_from m)
        else if a = SIP_ATTR_SIPTO then (case msgs call of [] \<Rightarrow> [] | m # _ \<Rightarrow> sip_to m)
        else if a = SIP_ATTR_CALLID then callid call
        else []),
      call_list_line_text = (\<lambda>call. callid call)\<rparr>"

definition mk_msg :: "int \<Rightarrow> string \<Rightarrow> string \<Rightarrow> string \<Rightarrow> string \<Rightarrow> sip_msg" where
  "mk_msg code cid from to text =
     \<lparr>reqresp = code, msg_callid = cid, msg_xcallid = [], sip_from = from, sip_to = to,
      to_tag = False, payload = text\<rparr>"

definition call_alice :: sip_call where
  "call_alice =
     \<lparr>index = 1, callid = ''c1'', xcallid = [],
      msgs = [mk_msg 2 ''c1'' ''alice@example.org'' ''carol@example.org'' ''INVITE sip:carol'',
              mk_msg 200 ''c1'' ''alice@example.org'' ''carol@example.org'' ''SIP/2.0 200 OK'',
              mk_msg 9 ''c1'' ''alice@example.org'' ''carol@example.org'' ''BYE sip:carol''],
      filtered = - 1, locked = False\<rparr>"

definition call_bob :: sip_call where
  "call_bob =
     \<lparr>index = 2, callid = ''c2'', xcallid = [],
      msgs = [mk_msg 2 ''c2'' ''bob@example.org'' ''carol@example.org'' ''INVITE sip:carol'',
              mk_msg 200 ''c2'' ''bob@example.org'' ''carol@example.org'' ''SIP/2.0 200 OK''],
      filtered = - 1, locked = False\<rparr>"

definition call_empty :: sip_call where
  "call_empty =
     \<lparr>index = 3, callid = ''c3'', xcallid = [], msgs = [], filtered = 0, locked = False\<rparr>"

definition filters_from_alice :: "string filter_t list" where
  "filters_from_alice = filters_init[FILTER_SIPFROM := \<lparr>expr = Some ''alice'', regex = Some ''alice''\<rparr>]"

definition filters_payload_bye :: "string filter_t list" where
  "filters_payload_bye = filters_init[FILTER_PAYLOAD := \<lparr>expr = Some ''BYE'', regex = Some ''BYE''\<rparr>]"

definition state_alice_passed :: "string filter_state" where
  "state_alice_passed =
     \<lparr>filters = filters_from_alice,
      call_list = [call_alice\<lparr>filtered := 0\<rparr>, call_bob\<lparr>filtered := 1\<rparr>]\<rparr>"

definition state_bob_set :: "string filter_state" where
  "state_bob_set =
     state_alice_passed\<lparr>filters := filters_init[FILTER_SIPFROM := \<lparr>expr = Some ''bob'', regex = Some ''bob''\<rparr>]\<rparr>"




text \<open>The state after \<open>call_bob\<close> has passed with no filter set, and the same calls with the
  PAYLOAD filter \<open>BYE\<close> set.\<close>

definition state_bob_passed :: "string filter_state" where
  "state_bob_passed = \<lparr>filters = filters_init, call_list = [call_bob\<lparr>filtered := 0\<rparr>]\<rparr>"

definition state_bob_payload_set :: "string filter_state" where
  "state_bob_payload_set = \<lparr>filters = filters_payload_bye, call_list = [call_bob\<lparr>filtered := 0\<rparr>]\<rparr>"

lemmas fixtures =
  stub_env_def stub_regex_new_def mk_msg_def call_alice_def call_bob_def call_empty_def
  filters_from_alice_def filters_payload_bye_def state_alice_passed_def state_bob_set_def
  state_bob_passed_def state_bob_payload_set_def filters_init_def
  no_filter_def

text \<open>Registries for the scenarios of section 8 of the specification.\<close>

definition invite_msg :: "string \<Rightarrow> sip_msg" where
  "invite_msg cid = mk_msg SIP_METHOD_INVITE cid ''alice@example.org'' ''carol@example.org'' ''INVITE sip:carol''"

definition options_msg :: "string \<Rightarrow> sip_msg" where
  "options_msg cid = mk_msg SIP_METHOD_OPTIONS cid ''alice@example.org'' ''carol@example.org'' ''OPTIONS sip:carol''"

definition registry_init :: "32 word \<Rightarrow> bool \<Rightarrow> bool \<Rightarrow> string sip_call_list" where
  "registry_init lim rot only_invite =
     \<lparr>match = \<lparr>invite = only_invite, complete = False, mexpr = None, minvert = False, micase = False,
                mregex = None\<rparr>,
      capture = \<lparr>limit = lim, rotate = rot, rtp = False, outfile = None\<rparr>,
      calls_list = [], active = [], changed = False, last_index = 0\<rparr>"

definition registry_locked :: "string sip_call_list" where
  "registry_locked =
     (registry_init 1 True False)
       \<lparr>calls_list := [(call_create 0 (invite_msg ''c1''))\<lparr>locked := True\<rparr>],
        active := [''c1''], last_index := 1\<rparr>"

definition registry_full :: "bool \<Rightarrow> string sip_call_list" where
  "registry_full rot =
     (registry_init 2 rot False)
       \<lparr>calls_list := [call_create 0 (invite_msg ''c1''), call_create 1 (invite_msg ''c2'')],
        active := [''c1'', ''c2''], changed := True, last_index := 2\<rparr>"

definition registry_invite_only :: "string sip_call_list" where
  "registry_invite_only = registry_init 10 False True"

lemmas registry_fixtures =
  registry_init_def registry_locked_def invite_msg_def options_msg_def mk_msg_def
  stub_env_def call_create_def sip_methods

lemmas registry_defs =
  sip_check_packet_def sip_find_by_callid_def sip_calls_count_def sip_calls_rotate_def
  sip_check_match_expression_def sip_calls_has_changed_def sip_calls_clear_def
  registry_add_call_def Let_def

text \<open>Stand-ins for the validator's patterns: a start-line begins with \<open>INVITE\<close> or
  \<open>SIP/2.0\<close>, the length is the number after \<open>Content-Length:\<close>, and the headers end
  at the first empty line.\<close>

fun find_after :: "string \<Rightarrow> string \<Rightarrow> nat option" where
  "find_after pat [] = (if pat = [] then Some 0 else None)"
| "find_after pat (c # cs) =
     (if starts_with pat (c # cs) then Some (length pat)
      else map_option Suc (find_after pat cs))"

definition crlf :: string where
  "crlf = [CHR 0x0D, CHR 0x0A]"

definition stub_patterns :: sip_patterns where
  "stub_patterns =
     \<lparr>reg_valid = (\<lambda>text. starts_with ''INVITE '' text \<or> starts_with ''SIP/2.0 '' text),
      reg_cl = (\<lambda>text. map_option (\<lambda>k. nat (atoi_digits 0 (drop k text)))
                          (find_after ''Content-Length: '' text)),
      reg_body = find_after (crlf @ crlf)\<rparr>"

definition invite_head :: string where
  "invite_head = ''INVITE sip:carol SIP/2.0'' @ crlf @ ''Content-Length: 3'' @ crlf @ crlf"

lemmas validator_fixtures =
  stub_patterns_def invite_head_def crlf_def is_digit_def

section \<open>The filter engine: proofs\<close>

subsection \<open>What the loops compute\<close>

lemma filter_check_expr_matches:
  "(filter_check_expr env f d = 0) = pattern_matches env f d"
  by (simp add: filter_check_expr_def pattern_matches_def split: option.splits)


lemma payload_loop_overrun:
  assumes "\<forall>m \<in> set pre. length (msg_get_payload m) < MAX_SIP_PAYLOAD
              \<and> \<not> pattern_matches env f (payload m)"
    and "MAX_SIP_PAYLOAD \<le> length (msg_get_payload msg)"
  shows "payload_loop env f (pre @ msg # rest) call = None"
  using assms
  by (induction pre) (simp_all add: filter_check_expr_matches msg_get_payload_def strcpy_data_def)










subsection \<open>Conjunction of the enabled filters\<close>




subsection \<open>An expression that does not compile\<close>

text \<open>
  Claim C2. For every filter type and every expression that fails to compile,
  \<^verbatim>\<open>filter_set\<close> returns the failure code 1 and leaves the whole state as it was: the
  stored expression and compiled pattern of every filter, and the calls.
\<close>

theorem filter_set_invalid_pattern:
  assumes "g_regex_new env x = None"
  shows "filter_set env type (Some x) s = Some (1, s)"
  using assms by (simp add: filter_set_def)

theorem filter_set_invalid_pattern_witness:
  "g_regex_new stub_env ''(bob'' = None
   \<and> filter_set stub_env 0 (Some ''(bob'') state_alice_passed = Some (1, state_alice_passed)"
  using filter_set_invalid_pattern [of stub_env "''(bob''" 0 state_alice_passed]
  by (simp add: stub_env_def stub_regex_new_def)

subsection \<open>Filter changes and the verdict cache\<close>

text \<open>
  Claim C3, as stated, fails: a successful \<^verbatim>\<open>filter_set\<close> writes the filter table only.
  With the FROM filter changed from \<open>alice\<close> to \<open>bob\<close>, the two calls keep their cached
  verdicts pass (0) and reject (1); none becomes unknown.
\<close>

theorem filter_set_keeps_verdicts_counterexample:
  "filter_set stub_env 0 (Some ''bob'') state_alice_passed = Some (0, state_bob_set)
   \<and> map filtered (call_list state_alice_passed) = [0, 1]
   \<and> map filtered (call_list state_bob_set) = [0, 1]"
  by (simp add: filter_set_def Let_def fixtures filter_ids)

text \<open>
  Claim C3, amended. A successful \<^verbatim>\<open>filter_set\<close> leaves the call list, and so every
  cached verdict, unchanged. It is \<^verbatim>\<open>filter_reset_calls\<close>, called afterwards, that sets
  the verdict of every call to unknown (-1); it changes nothing else in the calls and does
  not touch the filter table.
\<close>

theorem filter_set_then_reset:
  assumes "filter_set env type e s = Some (0, s')"
  shows "call_list s' = call_list s
       \<and> filters (filter_reset_calls s') = filters s'
       \<and> map (\<lambda>c. c\<lparr>filtered := 0\<rparr>) (call_list (filter_reset_calls s'))
           = map (\<lambda>c. c\<lparr>filtered := 0\<rparr>) (call_list s)
       \<and> (\<forall>call \<in> set (call_list (filter_reset_calls s')). filtered call = - 1)"
  using assms
  by (auto simp: filter_set_def filter_reset_calls_def Let_def split: if_splits)

theorem filter_set_then_reset_witness:
  "filter_set stub_env 0 (Some ''bob'') state_alice_passed = Some (0, state_bob_set)
   \<and> call_list state_bob_set = call_list state_alice_passed
   \<and> map filtered (call_list (filter_reset_calls state_bob_set)) = [- 1, - 1]"
proof -
  have ok: "filter_set stub_env 0 (Some ''bob'') state_alice_passed = Some (0, state_bob_set)"
    by (simp add: filter_set_def Let_def fixtures filter_ids)
  from filter_set_then_reset [OF ok] ok show ?thesis
    by (simp add: filter_reset_calls_def state_alice_passed_def state_bob_set_def)
qed

subsection \<open>The payload filter\<close>




subsection \<open>The cached verdict\<close>




subsection \<open>Calls without messages\<close>

text \<open>
  Claim C10. For every call whose message count is zero, \<^verbatim>\<open>filter_check_call\<close> returns
  false and leaves the call, its cached verdict included, unchanged, whatever the
  filters are.
\<close>

theorem filter_check_call_no_msgs:
  assumes "call_msg_count call = 0"
  shows "filter_check_call env fs call = Some (False, call)"
  using assms by (simp add: filter_check_call_def)

theorem filter_check_call_no_msgs_witness:
  "call_msg_count call_empty = 0
   \<and> filter_check_call stub_env filters_from_alice call_empty = Some (False, call_empty)
   \<and> filtered call_empty = 0"
  using filter_check_call_no_msgs [of call_empty stub_env filters_from_alice]
  by (simp add: call_msg_count_def fixtures)

section \<open>The call registry: proofs\<close>

subsection \<open>The change flag follows the mutations\<close>

lemma call_add_message_differs:
  "find (\<lambda>c. callid c = msg_callid m) cs = Some c \<Longrightarrow> call_add_message m cs \<noteq> cs"
proof (induction cs)
  case Nil
  then show ?case by simp
next
  case (Cons a cs)
  show ?case
  proof (cases "callid a = msg_callid m")
    case True
    have "length (msgs (a\<lparr>msgs := msgs a @ [m], filtered := - 1\<rparr>)) \<noteq> length (msgs a)"
      by simp
    then have "a\<lparr>msgs := msgs a @ [m], filtered := - 1\<rparr> \<noteq> a"
      by metis
    then show ?thesis using True by simp
  next
    case False
    then show ?thesis using Cons by simp
  qed
qed


lemma evict_none: "find (\<lambda>c. \<not> locked c) cs = None \<Longrightarrow> evict_oldest_unlocked cs = cs"
  by (induction cs) (simp_all split: if_splits)

lemma evict_some:
  "find (\<lambda>c. \<not> locked c) cs = Some c \<Longrightarrow> Suc (length (evict_oldest_unlocked cs)) = length cs"
  by (induction cs) (simp_all split: if_splits)

lemma evict_subset: "set (evict_oldest_unlocked cs) \<subseteq> set cs"
  by (induction cs) auto

lemma rotate_changed:
  "changed (sip_calls_rotate s) = (changed s \<or> calls_list (sip_calls_rotate s) \<noteq> calls_list s)"
proof (cases "find (\<lambda>c. \<not> locked c) (calls_list s)")
  case None
  then show ?thesis by (simp add: sip_calls_rotate_def)
next
  case (Some c)
  from evict_some [OF Some] have "evict_oldest_unlocked (calls_list s) \<noteq> calls_list s"
    by (metis n_not_Suc_n)
  then show ?thesis using Some by (simp add: sip_calls_rotate_def)
qed

lemma clear_changed:
  "changed (sip_calls_clear s) = (changed s \<or> calls_list (sip_calls_clear s) \<noteq> calls_list s)"
  by (auto simp: sip_calls_clear_def)

lemma rotate_calls_subset: "set (calls_list (sip_calls_rotate s)) \<subseteq> set (calls_list s)"
  using evict_subset [of "calls_list s"]
  by (simp add: sip_calls_rotate_def split: option.splits)

lemma packet_changed:
  "changed (snd (sip_check_packet env m s))
     = (changed s \<or> calls_list (snd (sip_check_packet env m s)) \<noteq> calls_list s)"
proof (cases "msg_callid m = []")
  case True
  then show ?thesis by (simp add: sip_check_packet_def)
next
  case cid: False
  show ?thesis
  proof (cases "sip_find_by_callid s (msg_callid m)")
    case (Some c)
    then have "call_add_message m (calls_list s) \<noteq> calls_list s"
      by (simp add: sip_find_by_callid_def call_add_message_differs)
    then show ?thesis using cid Some by (simp add: sip_check_packet_def)
  next
    case None
    then have fresh: "\<forall>c \<in> set (calls_list s). callid c \<noteq> msg_callid m"
      by (simp add: sip_find_by_callid_def find_None_iff)
    have new: "cs @ [call_create i m] \<noteq> calls_list s" if "set cs \<subseteq> set (calls_list s)" for cs i
    proof
      assume "cs @ [call_create i m] = calls_list s"
      then have "call_create i m \<in> set (calls_list s)"
        by (metis in_set_conv_decomp)
      with fresh show False by (auto simp: call_create_def)
    qed
    show ?thesis
      using cid None new [OF rotate_calls_subset [of s]] new [OF subset_refl]
      by (simp add: sip_check_packet_def registry_add_call_def Let_def)
  qed
qed

lemma apply_op_changed:
  "changed (apply_op env op s) = (changed s \<or> mutates env op s)"
  by (cases op) (simp_all add: mutates_def packet_changed rotate_changed clear_changed)

lemma run_ops_changed:
  "changed (run_ops env ops s) = (changed s \<or> mutation_occurred env ops s)"
  by (induction ops arbitrary: s) (auto simp: apply_op_changed)

text \<open>
  Claim C8. \<^verbatim>\<open>sip_calls_has_changed\<close> returns the current value of the flag and clears
  it in the same transition. After a poll, the next poll returns true if and only if one of
  the operations run in between (packets, rotation, clearing) changed the sequence of calls
  or their messages; a poll repeated at once returns false. The poll itself leaves the
  calls as they are.
\<close>

theorem has_changed_iff_mutation:
  "fst (sip_calls_has_changed s) = changed s
   \<and> fst (sip_calls_has_changed (run_ops env ops (snd (sip_calls_has_changed s))))
       = mutation_occurred env ops (snd (sip_calls_has_changed s))
   \<and> \<not> fst (sip_calls_has_changed (snd (sip_calls_has_changed s)))
   \<and> calls_list (snd (sip_calls_has_changed s)) = calls_list s"
  by (simp add: sip_calls_has_changed_def run_ops_changed)

theorem has_changed_iff_mutation_witness:
  "\<not> mutation_occurred stub_env [Packet (options_msg ''abc@h'')]
        (snd (sip_calls_has_changed registry_invite_only))
   \<and> \<not> fst (sip_calls_has_changed (run_ops stub_env [Packet (options_msg ''abc@h'')]
        (snd (sip_calls_has_changed registry_invite_only))))
   \<and> mutation_occurred stub_env [Packet (options_msg ''abc@h''), Packet (invite_msg ''abc@h'')]
        (snd (sip_calls_has_changed registry_invite_only))
   \<and> fst (sip_calls_has_changed (run_ops stub_env
        [Packet (options_msg ''abc@h''), Packet (invite_msg ''abc@h'')]
        (snd (sip_calls_has_changed registry_invite_only))))
   \<and> \<not> fst (sip_calls_has_changed (snd (sip_calls_has_changed (run_ops stub_env
        [Packet (options_msg ''abc@h''), Packet (invite_msg ''abc@h'')]
        (snd (sip_calls_has_changed registry_invite_only))))))"
proof -
  have quiet: "\<not> mutation_occurred stub_env [Packet (options_msg ''abc@h'')]
        (snd (sip_calls_has_changed registry_invite_only))"
    by (simp add: mutates_def registry_invite_only_def registry_fixtures registry_defs)
  have loud: "mutation_occurred stub_env [Packet (options_msg ''abc@h''), Packet (invite_msg ''abc@h'')]
        (snd (sip_calls_has_changed registry_invite_only))"
    by (simp add: mutates_def registry_invite_only_def registry_fixtures registry_defs)
  from has_changed_iff_mutation [of registry_invite_only stub_env "[Packet (options_msg ''abc@h'')]"]
       has_changed_iff_mutation [of registry_invite_only stub_env
         "[Packet (options_msg ''abc@h''), Packet (invite_msg ''abc@h'')]"]
       has_changed_iff_mutation [of "run_ops stub_env
         [Packet (options_msg ''abc@h''), Packet (invite_msg ''abc@h'')]
         (snd (sip_calls_has_changed registry_invite_only))" stub_env "[]"]
       quiet loud
  show ?thesis by simp
qed

subsection \<open>The capture limit\<close>


lemma capture_rotate [simp]: "capture (sip_calls_rotate s) = capture s"
  by (simp add: sip_calls_rotate_def split: option.splits)

lemma capture_packet [simp]: "capture (snd (sip_check_packet env m s)) = capture s"
  by (simp add: sip_check_packet_def registry_add_call_def Let_def split: option.splits)

lemma capture_apply_op [simp]: "capture (apply_op env op s) = capture s"
  by (cases op) (simp_all add: sip_calls_clear_def)







text \<open>The registry of the rotation scenario, after the calls \<open>c1\<close> and \<open>c2\<close> have
  been stored with limit 2.\<close>

lemma registry_full_run:
  "run_ops stub_env [Packet (invite_msg ''c1''), Packet (invite_msg ''c2'')] (registry_init 2 rot False)
     = registry_full rot"
  by (simp add: registry_full_def registry_fixtures registry_defs)



section \<open>Method names: proofs\<close>

text \<open>
  Claim C6. For every method string \<open>m\<close> of the enumeration (REGISTER = 1, INVITE, SUBSCRIBE,
  NOTIFY, OPTIONS, PUBLISH, MESSAGE, CANCEL, BYE, ACK, PRACK, INFO, REFER, UPDATE = 14),
  \<^verbatim>\<open>sip_method_str(sip_method_from_str(m))\<close> is \<open>m\<close>.
\<close>

theorem sip_method_roundtrip:
  "map snd sip_codes =
     [''REGISTER'', ''INVITE'', ''SUBSCRIBE'', ''NOTIFY'', ''OPTIONS'', ''PUBLISH'', ''MESSAGE'',
      ''CANCEL'', ''BYE'', ''ACK'', ''PRACK'', ''INFO'', ''REFER'', ''UPDATE'']
   \<and> map fst sip_codes = [1, 2, 3, 4, 5, 6, 7, 8, 9, 10, 11, 12, 13, 14]
   \<and> (\<forall>m \<in> set (map snd sip_codes). sip_method_str (sip_method_from_str m) = Some m)"
  by (simp add: sip_codes_def sip_methods sip_method_str_def sip_method_from_str_def)

theorem sip_method_roundtrip_witness:
  "''BYE'' \<in> set (map snd sip_codes)
   \<and> sip_method_from_str ''BYE'' = SIP_METHOD_BYE
   \<and> sip_method_str (sip_method_from_str ''BYE'') = Some ''BYE''"
proof -
  have mem: "''BYE'' \<in> set (map snd sip_codes)"
    by (simp add: sip_codes_def)
  have num: "sip_method_from_str ''BYE'' = SIP_METHOD_BYE"
    by (simp add: sip_codes_def sip_methods sip_method_from_str_def)
  from sip_method_roundtrip mem have "sip_method_str (sip_method_from_str ''BYE'') = Some ''BYE''"
    by blast
  with mem num show ?thesis by simp
qed

section \<open>The payload validator: proofs\<close>

text \<open>
  Claim C7. On a stream transport \<^verbatim>\<open>sip_validate_packet\<close> answers NOT_SIP (-1) exactly
  when the first line is no SIP request or response start-line. Otherwise it answers
  COMPLETE (1) exactly when there is a \<^verbatim>\<open>Content-Length: N\<close> header and the bytes after
  the header terminator are exactly \<open>N\<close>, MULTIPLE (2) exactly when more than \<open>N\<close> bytes
  follow the terminator, and PARTIAL (0) in every other case: no such header, no header
  terminator, or fewer than \<open>N\<close> bytes after it.
\<close>

theorem sip_validate_packet_stream:
  "(sip_validate_packet pats Stream text = VALIDATE_NOT_SIP \<longleftrightarrow> \<not> reg_valid pats text)
   \<and> (sip_validate_packet pats Stream text = VALIDATE_COMPLETE_SIP \<longleftrightarrow>
        reg_valid pats text
        \<and> (\<exists>n pos. reg_cl pats text = Some n \<and> reg_body pats text = Some pos
                   \<and> length (drop pos text) = n))
   \<and> (sip_validate_packet pats Stream text = VALIDATE_MULTIPLE_SIP \<longleftrightarrow>
        reg_valid pats text
        \<and> (\<exists>n pos. reg_cl pats text = Some n \<and> reg_body pats text = Some pos
                   \<and> n < length (drop pos text)))
   \<and> (sip_validate_packet pats Stream text = VALIDATE_PARTIAL_SIP \<longleftrightarrow>
        reg_valid pats text
        \<and> \<not> (\<exists>n pos. reg_cl pats text = Some n \<and> reg_body pats text = Some pos
                   \<and> n \<le> length (drop pos text)))"
  by (auto simp: sip_validate_packet_def validate_results Let_def split: option.splits)

theorem sip_validate_packet_stream_witness:
  "reg_valid stub_patterns (invite_head @ ''abc'')
   \<and> reg_cl stub_patterns (invite_head @ ''abc'') = Some 3
   \<and> reg_body stub_patterns (invite_head @ ''abc'') = Some (length invite_head)
   \<and> length (drop (length invite_head) (invite_head @ ''abc'')) = 3
   \<and> sip_validate_packet stub_patterns Stream (invite_head @ ''abc'') = VALIDATE_COMPLETE_SIP
   \<and> sip_validate_packet stub_patterns Stream (invite_head @ ''ab'') = VALIDATE_PARTIAL_SIP
   \<and> sip_validate_packet stub_patterns Stream (invite_head @ ''abcSIP/2.0 200 OK'')
       = VALIDATE_MULTIPLE_SIP
   \<and> \<not> reg_valid stub_patterns ''hello''
   \<and> sip_validate_packet stub_patterns Stream ''hello'' = VALIDATE_NOT_SIP"
proof -
  have ok: "reg_valid stub_patterns (invite_head @ ''abc'')"
    and cl: "reg_cl stub_patterns (invite_head @ ''abc'') = Some 3"
    and pos: "reg_body stub_patterns (invite_head @ ''abc'') = Some (length invite_head)"
    and len: "length (drop (length invite_head) (invite_head @ ''abc'')) = 3"
    by (simp_all add: validator_fixtures)
  have complete: "sip_validate_packet stub_patterns Stream (invite_head @ ''abc'')
                    = VALIDATE_COMPLETE_SIP"
    using sip_validate_packet_stream [of stub_patterns "invite_head @ ''abc''"] ok cl pos len
    by blast
  have bad: "\<not> reg_valid stub_patterns ''hello''"
    by (simp add: validator_fixtures)
  have not_sip: "sip_validate_packet stub_patterns Stream ''hello'' = VALIDATE_NOT_SIP"
    using sip_validate_packet_stream [of stub_patterns "''hello''"] bad by blast
  have partial: "sip_validate_packet stub_patterns Stream (invite_head @ ''ab'')
                   = VALIDATE_PARTIAL_SIP"
    by (simp add: sip_validate_packet_def validator_fixtures validate_results)
  have multiple: "sip_validate_packet stub_patterns Stream (invite_head @ ''abcSIP/2.0 200 OK'')
                    = VALIDATE_MULTIPLE_SIP"
    by (simp add: sip_validate_packet_def validator_fixtures validate_results)
  from ok cl pos len complete partial multiple bad not_sip show ?thesis
    by simp
qed

end
